theory Spec2Isabelle
  imports Main
begin

section \<open>Data model\<close>

text \<open>
  The controller reads and writes MongoDB collections through mongoose. A collection is a
  list of documents, in the order in which a query returns them; a document is a record of
  the fields the controller touches. Object ids are strings (every comparison in the source goes through
  \<^verbatim>\<open>toString()\<close>), dates are milliseconds since the epoch, and statuses are the strings
  the source writes and compares.

  Amounts are JavaScript numbers. Their type is the parameter \<open>'n\<close>, and what the controller
  does with them, and the lower-casing of the runtime, are the fields of a record that every
  operation takes: the sum \<^verbatim>\<open>a + b\<close>, the difference \<^verbatim>\<open>a - b\<close>, the comparison
  \<^verbatim>\<open>a > b\<close>, the test \<^verbatim>\<open>if (a)\<close>, the literal \<^verbatim>\<open>0\<close>, and
  \<^verbatim>\<open>String.prototype.toLowerCase\<close>. Nothing is assumed of them, so what is proved holds of
  floating-point sums as the source computes them, in the order it computes them.
\<close>

type_synonym objectId = string
type_synonym date = int

record 'n js =
  js_add :: "'n \<Rightarrow> 'n \<Rightarrow> 'n"
  js_sub :: "'n \<Rightarrow> 'n \<Rightarrow> 'n"
  js_gt :: "'n \<Rightarrow> 'n \<Rightarrow> bool"
  js_truthy :: "'n \<Rightarrow> bool"
  js_zero :: 'n
  js_toLowerCase :: "string \<Rightarrow> string"

text \<open>A category of a tier; the source tests \<^verbatim>\<open>status === false\<close> only, so a status that is
  not set counts as \<open>True\<close>.\<close>

record 'n category =
  c_title :: string
  c_maxAmount :: 'n
  c_status :: bool

record 'n tier =
  t_id :: objectId
  t_title :: string
  t_categories :: "'n category list"
  t_totalAmount :: 'n

record 'n expense =
  e_id :: objectId
  e_title :: string
  e_category :: string
  e_amount :: 'n
  e_status :: string

record report =
  r_id :: objectId
  r_reportId :: "string option"
  r_user :: objectId
  r_event :: "objectId option"
  r_expenses :: "objectId list"
  r_title :: string
  r_status :: string
  r_reportDate :: date
  r_reason :: "string list"
  r_approver :: "objectId option"
  r_approverModel :: "string option"

record event =
  ev_id :: objectId
  ev_type :: string

record user =
  u_id :: objectId
  u_tier :: "objectId option"
  u_approver :: "objectId option"

record notification =
  n_content :: objectId
  n_user :: "objectId option"
  n_status :: string

text \<open>The documents that \<^verbatim>\<open>requestedBy.sender\<close> and \<^verbatim>\<open>deductBy\<close> refer to, with the
  field that \<^verbatim>\<open>populate\<close> selects.\<close>

record admin =
  a_id :: objectId
  a_name :: string

text \<open>\<^verbatim>\<open>transactionModel.js\<close>: sender and receiver of \<^verbatim>\<open>requestedBy\<close>, amount, status
  (one of pending, completed, cancelled) and the \<^verbatim>\<open>createdAt\<close> timestamp.\<close>

record 'n transaction =
  tx_id :: objectId
  tx_sender :: objectId
  tx_receiver :: objectId
  tx_amount :: 'n
  tx_status :: string
  tx_createdAt :: date

record 'n deduction =
  d_id :: objectId
  d_user :: objectId
  d_amount :: 'n
  d_deductBy :: objectId
  d_deductOn :: date
  d_mode :: string
  d_status :: bool

record 'n db =
  db_expenses :: "'n expense list"
  db_reports :: "report list"
  db_notifications :: "notification list"
  db_events :: "event list"
  db_users :: "user list"
  db_tiers :: "'n tier list"
  db_admins :: "admin list"
  db_transactions :: "'n transaction list"
  db_deductions :: "'n deduction list"

text \<open>The responses of \<^verbatim>\<open>responseHandler\<close> that are not a success, one constructor for
  each message of the controller. \<open>InternalServerError\<close> is the \<^verbatim>\<open>catch\<close> block (status
  500), reached here by reading a property of \<^verbatim>\<open>null\<close> or \<^verbatim>\<open>undefined\<close>.\<close>

datatype 'n error =
    InvalidInput string
  | ExpensesRequired
  | EventNotFound
  | AlreadyMapped string
  | CategoryNotFound string
  | CategoryDisabled string
  | CategoryLimitExceeded string
  | ExpenseAlreadyReported string
  | TierLimitExceeded 'n
  | ReportIdRequired
  | ReportNotFound
  | ApprovalIdRequired
  | ApprovalNotFound
  | ApprovalAlreadyDone
  | ExpensesDoNotMatch
  | UserNotFound
  | InternalServerError

section \<open>Strings\<close>

text \<open>\<^verbatim>\<open>Number.prototype.toString\<close> on a natural number, and \<^verbatim>\<open>padStart\<close> with a
  one-character filler.\<close>

definition digitChar :: "nat \<Rightarrow> char" where
  "digitChar d = ''0123456789'' ! d"

fun toString :: "nat \<Rightarrow> string" where
  "toString n = (if n < 10 then [digitChar n] else toString (n div 10) @ [digitChar (n mod 10)])"

declare toString.simps [simp del]

definition padStart :: "nat \<Rightarrow> char \<Rightarrow> string \<Rightarrow> string" where
  "padStart n c s = replicate (n - length s) c @ s"

text \<open>Lines 204-207 and 937-942: the label of the next report, from the number of report
  documents.\<close>

definition reportLabel :: "nat \<Rightarrow> string" where
  "reportLabel nextReportNumber = ''Rep#'' @ padStart 3 (CHR ''0'') (toString nextReportNumber)"

text \<open>The number a string of decimal digits denotes.\<close>

definition digitValue :: "char \<Rightarrow> int" where
  "digitValue c = of_char c - 48"

definition decimalValue :: "string \<Rightarrow> int" where
  "decimalValue s = foldl (\<lambda>a c. 10 * a + digitValue c) 0 s"

definition isDigit :: "char \<Rightarrow> bool" where
  "isDigit c = (48 \<le> (of_char c :: int) \<and> (of_char c :: int) \<le> 57)"

text \<open>An array index is a property key that is the decimal writing, without leading zeros, of
  a number below \<open>2^32 - 1\<close>.\<close>

definition isArrayIndex :: "string \<Rightarrow> bool" where
  "isArrayIndex k =
     (k \<noteq> [] \<and> list_all isDigit k \<and> (tl k = [] \<or> hd k \<noteq> CHR ''0'') \<and>
      decimalValue k < 4294967295)"

section \<open>Objects used as dictionaries\<close>

text \<open>The own properties of an object, in the order of their creation; a write to a key that
  exists keeps its place.\<close>

fun setTotal :: "string \<Rightarrow> 'v \<Rightarrow> (string \<times> 'v) list \<Rightarrow> (string \<times> 'v) list" where
  "setTotal k v [] = [(k, v)]"
| "setTotal k v ((k', v') # kvs) = (if k' = k then (k, v) # kvs else (k', v') # setTotal k v kvs)"

text \<open>\<^verbatim>\<open>Object.entries\<close>: the array indices first, in ascending order, then the other keys
  in the order of their creation.\<close>

definition objectEntries :: "(string \<times> 'v) list \<Rightarrow> (string \<times> 'v) list" where
  "objectEntries props =
     sort_key (\<lambda>p. decimalValue (fst p)) (filter (\<lambda>p. isArrayIndex (fst p)) props) @
     filter (\<lambda>p. \<not> isArrayIndex (fst p)) props"

text \<open>The properties that \<^verbatim>\<open>{}\<close> inherits from \<^verbatim>\<open>Object.prototype\<close>: eleven functions, and
  the accessor \<^verbatim>\<open>__proto__\<close>.\<close>

definition inheritedFunctions :: "string list" where
  "inheritedFunctions =
     [''constructor'', ''__defineGetter__'', ''__defineSetter__'', ''hasOwnProperty'',
      ''__lookupGetter__'', ''__lookupSetter__'', ''isPrototypeOf'', ''propertyIsEnumerable'',
      ''toString'', ''valueOf'', ''toLocaleString'']"

section \<open>Queries and updates\<close>

definition countDocuments :: "'a list \<Rightarrow> nat" where
  "countDocuments xs = length xs"

text \<open>\<^verbatim>\<open>Expense.find({ _id: { $in: ids } })\<close>.\<close>

definition findExpenses :: "objectId list \<Rightarrow> 'n expense list \<Rightarrow> 'n expense list" where
  "findExpenses ids es = filter (\<lambda>e. e_id e \<in> set ids) es"

text \<open>\<^verbatim>\<open>Expense.updateMany({ _id: { $in: ids } }, { status: st })\<close>.\<close>

definition updateManyStatus :: "objectId list \<Rightarrow> string \<Rightarrow> 'n expense list \<Rightarrow> 'n expense list" where
  "updateManyStatus ids st es = map (\<lambda>e. if e_id e \<in> set ids then e\<lparr>e_status := st\<rparr> else e) es"

definition findReportById :: "objectId \<Rightarrow> report list \<Rightarrow> report option" where
  "findReportById i rs = find (\<lambda>r. r_id r = i) rs"

text \<open>\<^verbatim>\<open>findByIdAndUpdate\<close>: the first document with the id is replaced.\<close>

fun updateReportById :: "objectId \<Rightarrow> (report \<Rightarrow> report) \<Rightarrow> report list \<Rightarrow> report list" where
  "updateReportById i f [] = []"
| "updateReportById i f (r # rs) = (if r_id r = i then f r # rs else r # updateReportById i f rs)"

definition findEvent :: "objectId \<Rightarrow> event list \<Rightarrow> event option" where
  "findEvent i evs = find (\<lambda>ev. ev_id ev = i) evs"

text \<open>\<^verbatim>\<open>User.findOne({ _id: userId }).populate("tier")\<close>: the user with the tier document
  in place of its id; a reference that does not resolve is \<^verbatim>\<open>null\<close>.\<close>

record 'n populatedUser =
  pu_tier :: "'n tier option"
  pu_approver :: "objectId option"

definition findUserPopulated :: "objectId \<Rightarrow> 'n db \<Rightarrow> 'n populatedUser option" where
  "findUserPopulated i d =
     (case find (\<lambda>u. u_id u = i) (db_users d) of
        None \<Rightarrow> None
      | Some u \<Rightarrow>
          Some \<lparr> pu_tier = (case u_tier u of
                              None \<Rightarrow> None
                            | Some tid \<Rightarrow> find (\<lambda>t. t_id t = tid) (db_tiers d)),
                 pu_approver = u_approver u \<rparr>)"

text \<open>\<^verbatim>\<open>user.tier\<close>: reading it on a missing user throws, and so does reading a field of a
  missing tier; both are \<open>None\<close> here and become \<open>InternalServerError\<close> at the use.\<close>

definition userTier :: "'n populatedUser option \<Rightarrow> 'n tier option" where
  "userTier usr = (case usr of None \<Rightarrow> None | Some u \<Rightarrow> pu_tier u)"

section \<open>createReport\<close>

record createBody =
  b_expenses :: "objectId list"
  b_event :: "objectId option"
  b_title :: string
  b_reportDate :: date

text \<open>What a call gets from outside the database: the authenticated user, the bounds of the
  current month as \<^verbatim>\<open>moment\<close> computes them, and the id the store gives the new
  document.\<close>

record ctx =
  cx_userId :: objectId
  cx_startOfMonth :: date
  cx_endOfMonth :: date
  cx_newId :: objectId

text \<open>Modelled from the spec: \<^verbatim>\<open>reportModel.js\<close> is not among the sources; the status a
  report has when the body gives none is \<open>pending\<close>.\<close>

definition reportDefaultStatus :: string where
  "reportDefaultStatus = ''pending''"

text \<open>Lines 220-245, \<^verbatim>\<open>createNewReport\<close>: the report is stored, the submitter is notified,
  then the approver; \<^verbatim>\<open>user.approver\<close> on a missing user throws after the first two
  writes.\<close>

definition createNewReport ::
  "ctx \<Rightarrow> 'n populatedUser option \<Rightarrow> createBody \<Rightarrow> string \<Rightarrow> 'n db \<Rightarrow> 'n db \<times> ('n error + report)" where
  "createNewReport cx usr body reportId d =
     (let newReport = \<lparr> r_id = cx_newId cx, r_reportId = Some reportId, r_user = cx_userId cx,
                         r_event = b_event body, r_expenses = b_expenses body,
                         r_title = b_title body, r_status = reportDefaultStatus,
                         r_reportDate = b_reportDate body, r_reason = [],
                         r_approver = None, r_approverModel = None \<rparr>;
          d1 = d\<lparr>db_reports := db_reports d @ [newReport]\<rparr>;
          d2 = d1\<lparr>db_notifications := db_notifications d1 @
                 [\<lparr> n_content = r_id newReport, n_user = Some (cx_userId cx),
                    n_status = r_status newReport \<rparr>]\<rparr>
      in case usr of
           None \<Rightarrow> (d2, Inl InternalServerError)
         | Some u \<Rightarrow>
             (d2\<lparr>db_notifications := db_notifications d2 @
                 [\<lparr> n_content = r_id newReport, n_user = pu_approver u,
                    n_status = r_status newReport \<rparr>]\<rparr>,
              Inr newReport))"

text \<open>The value of a property of \<^verbatim>\<open>categoryTotals\<close>: a number, or the string that
  \<^verbatim>\<open>+=\<close> makes of an inherited function and an amount. Such a string is not empty, stays a
  string when an amount is added to it, and is not a number when it is compared with
  one.\<close>

datatype 'n total = Amount 'n | Text

text \<open>Lines 274-278. \<^verbatim>\<open>categoryTotals\<close> is \<^verbatim>\<open>{}\<close>, so a read of a key it does not own goes to
  \<^verbatim>\<open>Object.prototype\<close>. For \<^verbatim>\<open>__proto__\<close> the read gives an object, which is truthy, and
  the write of a string through the accessor is ignored: nothing is recorded. For the name
  of an inherited function the read gives the function, and \<^verbatim>\<open>+=\<close> stores a string under the
  key. For any other key the read gives \<^verbatim>\<open>undefined\<close> and the amount is stored. An own total
  that is falsy is overwritten instead of added to.\<close>

definition addCategoryTotal ::
  "'n js \<Rightarrow> (string \<times> 'n total) list \<Rightarrow> 'n expense \<Rightarrow> (string \<times> 'n total) list" where
  "addCategoryTotal J categoryTotals ex =
     (case map_of categoryTotals (e_category ex) of
        Some (Amount v) \<Rightarrow>
          if js_truthy J v
          then setTotal (e_category ex) (Amount (js_add J v (e_amount ex))) categoryTotals
          else setTotal (e_category ex) (Amount (e_amount ex)) categoryTotals
      | Some Text \<Rightarrow> setTotal (e_category ex) Text categoryTotals
      | None \<Rightarrow>
          if e_category ex = ''__proto__'' then categoryTotals
          else if e_category ex \<in> set inheritedFunctions
            then setTotal (e_category ex) Text categoryTotals
          else setTotal (e_category ex) (Amount (e_amount ex)) categoryTotals)"

text \<open>Lines 265-279.\<close>

fun aggregateExpenses ::
  "'n js \<Rightarrow> 'n expense list \<Rightarrow> (string \<times> 'n total) list \<Rightarrow> 'n error + (string \<times> 'n total) list" where
  "aggregateExpenses J [] categoryTotals = Inr categoryTotals"
| "aggregateExpenses J (ex # exs) categoryTotals =
     (if e_status ex = ''mapped'' then Inl (AlreadyMapped (e_title ex))
      else aggregateExpenses J exs (addCategoryTotal J categoryTotals ex))"

text \<open>Lines 284-286: the first category of the tier whose title is the same in lower case.\<close>

definition findTierCategory :: "'n js \<Rightarrow> 'n tier \<Rightarrow> string \<Rightarrow> 'n category option" where
  "findTierCategory J t title =
     find (\<lambda>cat. js_toLowerCase J (c_title cat) = js_toLowerCase J title) (t_categories t)"

text \<open>Line 293, \<^verbatim>\<open>value > tierCategory.maxAmount\<close>.\<close>

definition exceeds :: "'n js \<Rightarrow> 'n total \<Rightarrow> 'n \<Rightarrow> bool" where
  "exceeds J v maxAmount = (case v of Amount a \<Rightarrow> js_gt J a maxAmount | Text \<Rightarrow> False)"

text \<open>Lines 282-300: the checks of one entry, then the loop over the entries.\<close>

definition checkCategory ::
  "'n js \<Rightarrow> 'n populatedUser option \<Rightarrow> string \<times> 'n total \<Rightarrow> 'n error option" where
  "checkCategory J usr entry =
     (case userTier usr of
        None \<Rightarrow> Some InternalServerError
      | Some t \<Rightarrow>
          (case findTierCategory J t (fst entry) of
             None \<Rightarrow> Some (CategoryNotFound (fst entry))
           | Some tierCategory \<Rightarrow>
               if c_status tierCategory = False then Some (CategoryDisabled (fst entry))
               else if exceeds J (snd entry) (c_maxAmount tierCategory)
                 then Some (CategoryLimitExceeded (fst entry))
               else None))"

fun checkCategories ::
  "'n js \<Rightarrow> 'n populatedUser option \<Rightarrow> (string \<times> 'n total) list \<Rightarrow> 'n error option" where
  "checkCategories J usr [] = None"
| "checkCategories J usr (entry # entries) =
     (case checkCategory J usr entry of
        Some err \<Rightarrow> Some err
      | None \<Rightarrow> checkCategories J usr entries)"

text \<open>Lines 302-305: the first report that holds one of the expenses and is approved or
  reimbursed.\<close>

definition findExistingReport :: "objectId list \<Rightarrow> report list \<Rightarrow> report option" where
  "findExistingReport expenseIds rs =
     find (\<lambda>r. (\<exists>i \<in> set (r_expenses r). i \<in> set expenseIds) \<and>
               r_status r \<in> {''approved'', ''reimbursed''}) rs"

text \<open>Lines 314-330: the amounts of the expenses of every approved or reimbursed report
  dated in the current month, added one by one to the same accumulator.\<close>

definition existingReports :: "ctx \<Rightarrow> report list \<Rightarrow> report list" where
  "existingReports cx rs =
     filter (\<lambda>r. cx_startOfMonth cx \<le> r_reportDate r \<and> r_reportDate r \<le> cx_endOfMonth cx \<and>
                 r_status r \<in> {''approved'', ''reimbursed''}) rs"

definition existingTotalAmount :: "'n js \<Rightarrow> ctx \<Rightarrow> 'n db \<Rightarrow> 'n" where
  "existingTotalAmount J cx d =
     foldl (\<lambda>acc r. foldl (\<lambda>acc ex. js_add J acc (e_amount ex)) acc
                       (findExpenses (r_expenses r) (db_expenses d)))
       (js_zero J) (existingReports cx (db_reports d))"

text \<open>Lines 262-312: the checks that come before the tier total; \<open>None\<close> when all of them
  pass.\<close>

definition earlierChecks ::
  "'n js \<Rightarrow> 'n populatedUser option \<Rightarrow> objectId list \<Rightarrow> 'n expense list \<Rightarrow> 'n db \<Rightarrow>
   'n error option" where
  "earlierChecks J usr expenseIds expenses d =
     (case aggregateExpenses J expenses [] of
        Inl err \<Rightarrow> Some err
      | Inr categoryTotals \<Rightarrow>
          (case checkCategories J usr (objectEntries categoryTotals) of
             Some err \<Rightarrow> Some err
           | None \<Rightarrow>
               (case findExistingReport expenseIds (db_reports d) of
                  Some existingReport \<Rightarrow> Some (ExpenseAlreadyReported (r_title existingReport))
                | None \<Rightarrow> None)))"

text \<open>Lines 262-338: every check between the event test and the writes.\<close>

definition policyChecks ::
  "'n js \<Rightarrow> ctx \<Rightarrow> 'n populatedUser option \<Rightarrow> objectId list \<Rightarrow> 'n expense list \<Rightarrow> 'n db \<Rightarrow>
   'n error option" where
  "policyChecks J cx usr expenseIds expenses d =
     (case earlierChecks J usr expenseIds expenses d of
        Some err \<Rightarrow> Some err
      | None \<Rightarrow>
          (case userTier usr of
             None \<Rightarrow> Some InternalServerError
           | Some t \<Rightarrow>
               if js_gt J (existingTotalAmount J cx d) (t_totalAmount t)
               then Some (TierLimitExceeded (t_totalAmount t))
               else None))"

text \<open>Lines 262-345: the path of a report that is not attached to an Admin event.\<close>

definition checkedReport ::
  "'n js \<Rightarrow> ctx \<Rightarrow> 'n populatedUser option \<Rightarrow> createBody \<Rightarrow> string \<Rightarrow> 'n expense list \<Rightarrow> 'n db \<Rightarrow>
   'n db \<times> ('n error + report)" where
  "checkedReport J cx usr body reportId expenses d =
     (case policyChecks J cx usr (b_expenses body) expenses d of
        Some err \<Rightarrow> (d, Inl err)
      | None \<Rightarrow>
          createNewReport cx usr body reportId
            (d\<lparr>db_expenses := updateManyStatus (b_expenses body) ''mapped'' (db_expenses d)\<rparr>))"

text \<open>\<^verbatim>\<open>if (req.body.event)\<close>: an absent id and the empty string are falsy.\<close>

definition truthyId :: "objectId option \<Rightarrow> bool" where
  "truthyId x = (case x of None \<Rightarrow> False | Some s \<Rightarrow> s \<noteq> [])"

text \<open>\<^verbatim>\<open>event.type\<close>: reading it on \<^verbatim>\<open>null\<close> throws a TypeError.\<close>

definition eventType :: "event option \<Rightarrow> 'n error + string" where
  "eventType ev = (case ev of None \<Rightarrow> Inl InternalServerError | Some e \<Rightarrow> Inr (ev_type e))"

text \<open>Lines 191-349. The validation schema is not among the sources: it is the parameter
  \<open>createReportSchema\<close>, which gives the message of a body it refuses.\<close>

definition createReport ::
  "'n js \<Rightarrow> (createBody \<Rightarrow> string option) \<Rightarrow> ctx \<Rightarrow> createBody \<Rightarrow> 'n db \<Rightarrow>
   'n db \<times> ('n error + report)" where
  "createReport J createReportSchema cx body d =
     (case createReportSchema body of
        Some msg \<Rightarrow> (d, Inl (InvalidInput msg))
      | None \<Rightarrow>
          let reportId = reportLabel (countDocuments (db_reports d) + 1);
              expenseIds = b_expenses body
          in if expenseIds = [] then (d, Inl ExpensesRequired)
             else
               let expenses = findExpenses expenseIds (db_expenses d);
                   usr = findUserPopulated (cx_userId cx) d
               in if truthyId (b_event body) then
                    (let ev = findEvent (the (b_event body)) (db_events d)
                     in case eventType ev of
                          Inl err \<Rightarrow> (d, Inl err)
                        | Inr ty \<Rightarrow>
                            if ty = ''Admin'' then
                              createNewReport cx usr body reportId
                                (d\<lparr>db_expenses :=
                                     updateManyStatus expenseIds ''mapped'' (db_expenses d)\<rparr>)
                            else if ev = None then (d, Inl EventNotFound)
                            else checkedReport J cx usr body reportId expenses d)
                  else checkedReport J cx usr body reportId expenses d)"

text \<open>A run of \<^verbatim>\<open>createReport\<close> calls, each on the database the one before left.\<close>

fun createReports ::
  "'n js \<Rightarrow> (createBody \<Rightarrow> string option) \<Rightarrow> (ctx \<times> createBody) list \<Rightarrow> 'n db \<Rightarrow> 'n db" where
  "createReports J createReportSchema [] d = d"
| "createReports J createReportSchema (call # calls) d =
     createReports J createReportSchema calls
       (fst (createReport J createReportSchema (fst call) (snd call) d))"

section \<open>updateReport\<close>

text \<open>The fields of the request body that \<^verbatim>\<open>findByIdAndUpdate(id, req.body)\<close> writes; a field
  the body does not carry is left as it is.\<close>

record reportPatch =
  p_expenses :: "objectId list option"
  p_reportId :: "string option"
  p_title :: "string option"
  p_status :: "string option"

definition applyPatch :: "reportPatch \<Rightarrow> report \<Rightarrow> report" where
  "applyPatch body r =
     r\<lparr> r_expenses := (case p_expenses body of None \<Rightarrow> r_expenses r | Some xs \<Rightarrow> xs),
        r_reportId := (case p_reportId body of None \<Rightarrow> r_reportId r | Some l \<Rightarrow> Some l),
        r_title := (case p_title body of None \<Rightarrow> r_title r | Some t \<Rightarrow> t),
        r_status := (case p_status body of None \<Rightarrow> r_status r | Some s \<Rightarrow> s) \<rparr>"

text \<open>Lines 907-934: the two differences between the stored list and the list of the body,
  and the two status updates.\<close>

definition syncExpenses :: "objectId list \<Rightarrow> objectId list \<Rightarrow> 'n db \<Rightarrow> 'n db" where
  "syncExpenses reportExpenses requestExpenses d =
     (if length requestExpenses > 0 then
        let expensesOnlyInRequest = filter (\<lambda>ex. ex \<notin> set reportExpenses) requestExpenses;
            expensesOnlyInReport = filter (\<lambda>ex. ex \<notin> set requestExpenses) reportExpenses;
            d1 = (if length expensesOnlyInRequest > 0
                  then d\<lparr>db_expenses :=
                           updateManyStatus expensesOnlyInRequest ''mapped'' (db_expenses d)\<rparr>
                  else d)
        in if length expensesOnlyInReport > 0
           then d1\<lparr>db_expenses := updateManyStatus expensesOnlyInReport ''draft'' (db_expenses d1)\<rparr>
           else d1
      else d)"

text \<open>Lines 895-958.\<close>

definition updateReport ::
  "objectId \<Rightarrow> reportPatch \<Rightarrow> 'n db \<Rightarrow> 'n db \<times> ('n error + report)" where
  "updateReport i body d =
     (if i = [] then (d, Inl ReportIdRequired)
      else
        (case findReportById i (db_reports d) of
          None \<Rightarrow> (d, Inl ReportNotFound)
        | Some findReport \<Rightarrow>
            let reportExpenses = r_expenses findReport;
                requestExpenses = (case p_expenses body of None \<Rightarrow> [] | Some xs \<Rightarrow> xs);
                d1 = syncExpenses reportExpenses requestExpenses d;
                body1 = (if r_reportId findReport = None
                         then body\<lparr>p_reportId :=
                                Some (reportLabel (countDocuments (db_reports d1) + 1))\<rparr>
                         else body)
            in (d1\<lparr>db_reports := updateReportById i (applyPatch body1) (db_reports d1)\<rparr>,
                Inr (applyPatch body1 findReport))))"

section \<open>updateApproval\<close>

text \<open>Lines 1116-1121: the test that answers "Expenses do not match".\<close>

definition expensesMismatch :: "objectId list \<Rightarrow> objectId list \<Rightarrow> bool" where
  "expensesMismatch findApprovalExpensesIds expenses =
     (length findApprovalExpensesIds \<noteq> length expenses \<or>
      \<not> list_all (\<lambda>expenseId. expenseId \<in> set findApprovalExpensesIds) expenses)"

text \<open>Lines 1126-1135: the update of the report document.\<close>

definition decide :: "string \<Rightarrow> objectId \<Rightarrow> string \<Rightarrow> report \<Rightarrow> report" where
  "decide newStatus userId reason r =
     r\<lparr> r_status := newStatus, r_approverModel := Some ''User'', r_approver := Some userId,
        r_reason := r_reason r @ [reason] \<rparr>"

text \<open>Lines 1086-1175. The expense list of the body is \<open>None\<close> when the body has none:
  \<^verbatim>\<open>expenses.length\<close> then throws. The success response carries the new status. The
  update of line 1126 is made on the document that line 1099 found, so the branch of line
  1137 for an update that finds nothing is not taken.\<close>

definition updateApproval ::
  "objectId \<Rightarrow> objectId \<Rightarrow> string \<Rightarrow> objectId list option \<Rightarrow> string \<Rightarrow> 'n db \<Rightarrow>
   'n db \<times> ('n error + string)" where
  "updateApproval userId i action body_expenses reason d =
     (case body_expenses of
        None \<Rightarrow> (d, Inl InternalServerError)
      | Some expenses \<Rightarrow>
          if length expenses = 0 then (d, Inl ExpensesRequired)
          else if i = [] then (d, Inl ApprovalIdRequired)
          else
            (case findReportById i (db_reports d) of
              None \<Rightarrow> (d, Inl ApprovalNotFound)
            | Some findApproval \<Rightarrow>
                if r_status findApproval \<noteq> ''pending'' then (d, Inl ApprovalAlreadyDone)
                else
                  let isApproveAction = (action = ''approve'');
                      newStatus = (if isApproveAction then ''approved'' else ''rejected'')
                  in if isApproveAction \<and> expensesMismatch (r_expenses findApproval) expenses
                     then (d, Inl ExpensesDoNotMatch)
                     else
                       let d1 = d\<lparr>db_reports :=
                                   updateReportById i (decide newStatus userId reason)
                                     (db_reports d)\<rparr>;
                           d2 = d1\<lparr>db_notifications := db_notifications d1 @
                                   [\<lparr> n_content = r_id findApproval,
                                      n_user = Some (r_user findApproval),
                                      n_status = newStatus \<rparr>]\<rparr>
                       in if isApproveAction then
                            (d2\<lparr>db_expenses :=
                                 updateManyStatus expenses newStatus (db_expenses d2)\<rparr>,
                             Inr newStatus)
                          else
                            let d3 = d2\<lparr>db_expenses :=
                                        updateManyStatus expenses ''rejected'' (db_expenses d2)\<rparr>;
                                remainingExpenses =
                                  filter (\<lambda>x. x \<notin> set expenses) (r_expenses findApproval)
                            in (d3\<lparr>db_expenses :=
                                    updateManyStatus remainingExpenses ''approved''
                                      (db_expenses d3)\<rparr>,
                                Inr newStatus)))"

section \<open>getWallet\<close>

record 'n walletEntry =
  w_id :: string
  w_amount :: 'n
  w_date :: date
  w_mode :: string
  w_admin :: string

record 'n wallet =
  totalAmount :: 'n
  totalExpenses :: 'n
  balanceAmount :: 'n
  entries :: "'n walletEntry list"

text \<open>Lines 1375-1381 and 1399-1404: the two queries, between the bounds of the month.\<close>

definition advancesOf ::
  "objectId \<Rightarrow> date \<Rightarrow> date \<Rightarrow> 'n transaction list \<Rightarrow> 'n transaction list" where
  "advancesOf userId startOfMonth endOfMonth txs =
     filter (\<lambda>a. startOfMonth \<le> tx_createdAt a \<and> tx_createdAt a \<le> endOfMonth \<and>
                 tx_receiver a = userId \<and> tx_status a = ''completed'') txs"

definition walletDeductionsOf ::
  "objectId \<Rightarrow> date \<Rightarrow> date \<Rightarrow> 'n deduction list \<Rightarrow> 'n deduction list" where
  "walletDeductionsOf userId startOfMonth endOfMonth ds =
     filter (\<lambda>x. startOfMonth \<le> d_deductOn x \<and> d_deductOn x \<le> endOfMonth \<and>
                 d_mode x = ''wallet'' \<and> d_status x = True \<and> d_user x = userId) ds"

definition findAdmin :: "objectId \<Rightarrow> admin list \<Rightarrow> admin option" where
  "findAdmin i as = find (\<lambda>a. a_id a = i) as"

definition creditEntry :: "admin list \<Rightarrow> 'n transaction \<Rightarrow> 'n walletEntry" where
  "creditEntry as advance =
     \<lparr> w_id = ''#transaction_'' @ take 6 (tx_id advance), w_amount = tx_amount advance,
       w_date = tx_createdAt advance, w_mode = ''credit'',
       w_admin = (case findAdmin (tx_sender advance) as of
                    Some a \<Rightarrow> a_name a
                  | None \<Rightarrow> ''User'') \<rparr>"

text \<open>\<^verbatim>\<open>exp.deductBy.name\<close> throws when the reference did not populate.\<close>

definition debitEntry :: "admin list \<Rightarrow> 'n deduction \<Rightarrow> 'n walletEntry option" where
  "debitEntry as ex =
     (case findAdmin (d_deductBy ex) as of
        None \<Rightarrow> None
      | Some a \<Rightarrow>
          Some \<lparr> w_id = ''#transaction_'' @ take 6 (d_id ex), w_amount = d_amount ex,
                 w_date = d_deductOn ex, w_mode = ''debit'', w_admin = a_name a \<rparr>)"

text \<open>Lines 1364-1437. The user is not populated here, so \<^verbatim>\<open>user.tier.categories\<close> is
  \<^verbatim>\<open>undefined\<close> for a user with a tier, and throws for a user without one; the response's
  \<^verbatim>\<open>categories\<close>, always \<^verbatim>\<open>undefined\<close>, is left out.\<close>

definition getWallet ::
  "'n js \<Rightarrow> objectId \<Rightarrow> date \<Rightarrow> date \<Rightarrow> 'n db \<Rightarrow> 'n error + 'n wallet" where
  "getWallet J userId startOfMonth endOfMonth d =
     (case find (\<lambda>u. u_id u = userId) (db_users d) of
        None \<Rightarrow> Inl UserNotFound
      | Some usr \<Rightarrow>
          (let advances = advancesOf userId startOfMonth endOfMonth (db_transactions d);
              mappedAdvances = map (creditEntry (db_admins d)) advances;
              total = foldl (\<lambda>acc advance. js_add J acc (tx_amount advance)) (js_zero J) advances;
              expenses = walletDeductionsOf userId startOfMonth endOfMonth (db_deductions d);
              spent = foldl (\<lambda>acc ex. js_add J acc (d_amount ex)) (js_zero J) expenses;
              balance = js_sub J total spent
          in case those (map (debitEntry (db_admins d)) expenses) of
               None \<Rightarrow> Inl InternalServerError
             | Some mappedData \<Rightarrow>
                 (case u_tier usr of
                    None \<Rightarrow> Inl InternalServerError
                  | Some tid \<Rightarrow>
                      Inr \<lparr> totalAmount = total, totalExpenses = spent,
                            balanceAmount = balance,
                            entries = mappedAdvances @ mappedData \<rparr>)))"

section \<open>Notions of the specification\<close>


section \<open>Scenarios\<close>

text \<open>The scenarios use whole amounts far below \<open>2^53\<close> and ASCII text, where the numbers of
  JavaScript are the integers and \<^verbatim>\<open>toLowerCase\<close> changes the letters A to Z only.\<close>

definition lowerChar :: "char \<Rightarrow> char" where
  "lowerChar c =
     (let n = (of_char c :: nat) in if 65 \<le> n \<and> n \<le> 90 then char_of (n + 32) else c)"

definition intJs :: "int js" where
  "intJs =
     \<lparr> js_add = (\<lambda>a b. a + b), js_sub = (\<lambda>a b. a - b), js_gt = (\<lambda>a b. a > b),
       js_truthy = (\<lambda>a. a \<noteq> 0), js_zero = 0, js_toLowerCase = map lowerChar \<rparr>"

text \<open>The databases of the end-to-end scenarios: one user \<open>u1\<close> on a tier whose only
  category is Travel, capped at 200, with expenses and reports as given.\<close>

definition tierOf :: "int \<Rightarrow> int tier" where
  "tierOf tierTotal =
     \<lparr> t_id = ''t1'', t_title = ''Staff'',
       t_categories = [\<lparr> c_title = ''Travel'', c_maxAmount = 200, c_status = True \<rparr>],
       t_totalAmount = tierTotal \<rparr>"

definition expenseIn :: "string \<Rightarrow> objectId \<Rightarrow> int \<Rightarrow> string \<Rightarrow> int expense" where
  "expenseIn c i a st =
     \<lparr> e_id = i, e_title = i, e_category = c, e_amount = a, e_status = st \<rparr>"

definition expenseOf :: "objectId \<Rightarrow> int \<Rightarrow> string \<Rightarrow> int expense" where
  "expenseOf i a st = expenseIn ''Travel'' i a st"

definition reportOf :: "objectId \<Rightarrow> string option \<Rightarrow> objectId list \<Rightarrow> string \<Rightarrow> report" where
  "reportOf i l ids st =
     \<lparr> r_id = i, r_reportId = l, r_user = ''u1'', r_event = None, r_expenses = ids,
       r_title = ''Trip'', r_status = st, r_reportDate = 1500, r_reason = [],
       r_approver = None, r_approverModel = None \<rparr>"

definition exampleDb :: "int \<Rightarrow> int expense list \<Rightarrow> report list \<Rightarrow> int db" where
  "exampleDb tierTotal es rs =
     \<lparr> db_expenses = es, db_reports = rs, db_notifications = [], db_events = [],
       db_users = [\<lparr> u_id = ''u1'', u_tier = Some ''t1'', u_approver = Some ''u2'' \<rparr>],
       db_tiers = [tierOf tierTotal], db_admins = [], db_transactions = [],
       db_deductions = [] \<rparr>"

definition exampleCtx :: ctx where
  "exampleCtx =
     \<lparr> cx_userId = ''u1'', cx_startOfMonth = 1000, cx_endOfMonth = 2000, cx_newId = ''r9'' \<rparr>"

text \<open>A validation schema that accepts the body.\<close>

definition acceptAll :: "createBody \<Rightarrow> string option" where
  "acceptAll body = None"

definition bodyOf :: "objectId list \<Rightarrow> objectId option \<Rightarrow> createBody" where
  "bodyOf ids ev = \<lparr> b_expenses = ids, b_event = ev, b_title = ''Trip'', b_reportDate = 1500 \<rparr>"

text \<open>A report \<open>r1\<close> of two mapped expenses, in the given status.\<close>

definition reviewDb :: "string \<Rightarrow> int db" where
  "reviewDb st =
     exampleDb 1000 [expenseOf ''e1'' 120 ''mapped'', expenseOf ''e2'' 50 ''mapped'']
       [reportOf ''r1'' (Some ''Rep#001'') [''e1'', ''e2''] st]"

text \<open>A report stored without a label, as \<^verbatim>\<open>getReport\<close> stores one for an event (lines
  728-737), and a body that changes nothing.\<close>

definition legacyDb :: "int db" where
  "legacyDb = exampleDb 1000 [expenseOf ''e1'' 20 ''drafted''] [reportOf ''r0'' None [] ''drafted'']"

definition emptyPatch :: reportPatch where
  "emptyPatch = \<lparr> p_expenses = None, p_reportId = None, p_title = None, p_status = None \<rparr>"

text \<open>The wallet scenario: one completed advance of 500 and one pending of 70; wallet
  deductions of 120 and 30 and a bank deduction of 40, all within the month. The principals
  that the deductions name are the parameter.\<close>

definition walletDb :: "admin list \<Rightarrow> objectId option \<Rightarrow> int db" where
  "walletDb admins userTierId =
     \<lparr> db_expenses = [], db_reports = [], db_notifications = [], db_events = [],
       db_users = [\<lparr> u_id = ''u1'', u_tier = userTierId, u_approver = Some ''u2'' \<rparr>],
       db_tiers = [tierOf 1000],
       db_admins = admins,
       db_transactions =
         [\<lparr> tx_id = ''x1'', tx_sender = ''a1'', tx_receiver = ''u1'', tx_amount = 500,
            tx_status = ''completed'', tx_createdAt = 1500 \<rparr>,
          \<lparr> tx_id = ''x2'', tx_sender = ''a1'', tx_receiver = ''u1'', tx_amount = 70,
            tx_status = ''pending'', tx_createdAt = 1500 \<rparr>],
       db_deductions =
         [\<lparr> d_id = ''d1'', d_user = ''u1'', d_amount = 120, d_deductBy = ''a1'',
            d_deductOn = 1200, d_mode = ''wallet'', d_status = True \<rparr>,
          \<lparr> d_id = ''d2'', d_user = ''u1'', d_amount = 30, d_deductBy = ''a1'',
            d_deductOn = 1800, d_mode = ''wallet'', d_status = True \<rparr>,
          \<lparr> d_id = ''d3'', d_user = ''u1'', d_amount = 40, d_deductBy = ''a1'',
            d_deductOn = 1800, d_mode = ''bank'', d_status = True \<rparr>] \<rparr>"

text \<open>Two expenses of one tier category written in two ways, and an expense whose category
  is the name of the accessor that every object inherits.\<close>

definition caseDb :: "int db" where
  "caseDb =
     exampleDb 1000 [expenseIn ''TRAVEL'' ''e1'' 120 ''drafted'',
                     expenseIn ''travel'' ''e2'' 90 ''drafted''] []"

definition protoDb :: "int db" where
  "protoDb = exampleDb 1000 [expenseIn ''__proto__'' ''e1'' 5000 ''drafted''] []"

section \<open>The path of a checked report\<close>

lemma aggregateExpenses_mapped:
  "e \<in> set es \<Longrightarrow> e_status e = ''mapped'' \<Longrightarrow> \<exists>ttl. aggregateExpenses J es acc = Inl (AlreadyMapped ttl)"
  by (induction es arbitrary: acc) auto

lemma aggregateExpenses_Inl:
  "aggregateExpenses J es acc = Inl err \<Longrightarrow> \<exists>e \<in> set es. e_status e = ''mapped'' \<and> err = AlreadyMapped (e_title e)"
  by (induction es arbitrary: acc) (auto split: if_splits)





lemma checkCategories_errors:
  "checkCategories J usr es = Some err \<Longrightarrow>
   err \<noteq> EventNotFound \<and> (\<forall>a. err \<noteq> TierLimitExceeded a)"
  by (induction es) (auto simp: checkCategory_def split: option.splits if_splits)

lemma earlierChecks_errors:
  assumes "earlierChecks J usr expenseIds es d = Some err"
  shows "err \<noteq> EventNotFound \<and> (\<forall>a. err \<noteq> TierLimitExceeded a)"
proof (cases "aggregateExpenses J es []")
  case (Inl e)
  with assms aggregateExpenses_Inl [OF Inl] show ?thesis
    by (auto simp: earlierChecks_def)
next
  case (Inr tot)
  show ?thesis
  proof (cases "checkCategories J usr (objectEntries tot)")
    case None
    with assms Inr show ?thesis
      by (auto simp: earlierChecks_def split: option.splits)
  next
    case (Some e)
    with assms Inr have "err = e"
      by (simp add: earlierChecks_def)
    with checkCategories_errors [OF Some] show ?thesis
      by simp
  qed
qed

lemma aggregateExpenses_Inr:
  "\<forall>e \<in> set es. e_status e \<noteq> ''mapped'' \<Longrightarrow> \<exists>tot. aggregateExpenses J es acc = Inr tot"
  by (induction es arbitrary: acc) auto

lemma set_objectEntries: "set (objectEntries props) = set props"
  by (auto simp: objectEntries_def)

lemma checkCategories_None:
  "checkCategories J usr es = None \<longleftrightarrow> (\<forall>entry \<in> set es. checkCategory J usr entry = None)"
  by (induction es) (auto split: option.splits)

text \<open>The checks of lines 262-312 pass when no referenced expense is mapped, every entry of
  \<^verbatim>\<open>categoryTotals\<close> passes the checks of its category, and no approved or reimbursed
  report holds a referenced expense.\<close>

lemma earlierChecks_pass:
  "earlierChecks J usr expenseIds es d = None \<longleftrightarrow>
     (\<forall>e \<in> set es. e_status e \<noteq> ''mapped'') \<and>
     (\<exists>tot. aggregateExpenses J es [] = Inr tot \<and>
            (\<forall>entry \<in> set tot. checkCategory J usr entry = None)) \<and>
     findExistingReport expenseIds (db_reports d) = None"
proof (cases "aggregateExpenses J es []")
  case (Inl err)
  with aggregateExpenses_Inl [OF Inl] show ?thesis
    by (auto simp: earlierChecks_def)
next
  case (Inr tot)
  have "\<forall>e \<in> set es. e_status e \<noteq> ''mapped''"
  proof (rule ccontr)
    assume "\<not> (\<forall>e \<in> set es. e_status e \<noteq> ''mapped'')"
    then obtain e where "e \<in> set es" "e_status e = ''mapped''" by blast
    from aggregateExpenses_mapped [OF this, where acc = "[]" and J = J] Inr
    show False by simp
  qed
  moreover have "checkCategories J usr (objectEntries tot) = None \<longleftrightarrow>
      (\<forall>entry \<in> set tot. checkCategory J usr entry = None)"
    by (simp add: checkCategories_None set_objectEntries)
  ultimately show ?thesis
    using Inr by (cases "checkCategories J usr (objectEntries tot)")
      (auto simp: earlierChecks_def split: option.splits)
qed



section \<open>Category limits (C1)\<close>

text \<open>
  C1: a \<^verbatim>\<open>createReport\<close> call without an Admin-event bypass must fail with a
  \<open>PolicyViolation\<close>, and leave every expense status unchanged, when the aggregated total of a
  category, matched without regard to case, exceeds that category's \<open>maxAmount\<close>. The source
  finds the tier category in lower case (lines 283-286) but keeps the totals under the
  category as the expense writes it (lines 274-278): expenses of 120 in \<open>TRAVEL\<close> and 90 in
  \<open>travel\<close> are both Travel, 210 against the cap of 200, and each total alone is under the
  cap. The report is created and both expenses are mapped.
\<close>

theorem createReport_category_case:
  "map (\<lambda>e. js_toLowerCase intJs (e_category e)) (db_expenses caseDb) =
     [js_toLowerCase intJs ''Travel'', js_toLowerCase intJs ''Travel''] \<and>
   sum_list (map e_amount (db_expenses caseDb)) = 210 \<and>
   map c_maxAmount (t_categories (tierOf 1000)) = [200] \<and>
   \<not> isl (snd (createReport intJs acceptAll exampleCtx (bodyOf [''e1'', ''e2''] None) caseDb)) \<and>
   map e_status
     (db_expenses (fst (createReport intJs acceptAll exampleCtx (bodyOf [''e1'', ''e2''] None)
        caseDb))) = [''mapped'', ''mapped'']"
  by code_simp

text \<open>
  The same call fails as the specification says when both expenses write the category in
  one way: 120 and 90 in \<open>Travel\<close> against the cap of 200.
\<close>

lemma createReport_travel_scenario:
  "createReport intJs acceptAll exampleCtx (bodyOf [''e1'', ''e2''] None)
     (exampleDb 1000 [expenseOf ''e1'' 120 ''drafted'', expenseOf ''e2'' 90 ''drafted''] []) =
   (exampleDb 1000 [expenseOf ''e1'' 120 ''drafted'', expenseOf ''e2'' 90 ''drafted''] [],
    Inl (CategoryLimitExceeded ''Travel''))"
  by code_simp

text \<open>
  A second input on which the checks of lines 282-300 do not run at all: the category
  \<^verbatim>\<open>__proto__\<close>, which the tier does not have, leaves \<^verbatim>\<open>categoryTotals\<close> without an entry,
  and the report is created.
\<close>

lemma createReport_inherited_key:
  "findTierCategory intJs (tierOf 1000) ''__proto__'' = None \<and>
   \<not> isl (snd (createReport intJs acceptAll exampleCtx (bodyOf [''e1''] None) protoDb)) \<and>
   map e_status
     (db_expenses (fst (createReport intJs acceptAll exampleCtx (bodyOf [''e1''] None) protoDb))) =
     [''mapped'']"
  by code_simp

section \<open>Tier total (C2)\<close>




section \<open>Facts about the stores\<close>

lemma findReportById_update:
  "findReportById i rs = Some r \<Longrightarrow> r_id (f r) = i \<Longrightarrow>
   findReportById i (updateReportById i f rs) = Some (f r)"
  by (induction rs) (auto simp: findReportById_def split: if_splits)

lemma findReportById_update_other:
  "j \<noteq> i \<Longrightarrow> (\<And>r. r_id (f r) = r_id r) \<Longrightarrow>
   findReportById j (updateReportById i f rs) = findReportById j rs"
  by (induction rs) (auto simp: findReportById_def)

lemma findReportById_id: "findReportById i rs = Some r \<Longrightarrow> r_id r = i"
  by (induction rs) (auto simp: findReportById_def split: if_splits)

lemma decide_id: "r_id (decide st u reason r) = r_id r"
  by (simp add: decide_def)

lemma updateManyStatus_twice:
  "updateManyStatus ys st2 (updateManyStatus xs st1 es) =
     map (\<lambda>e. if e_id e \<in> set ys then e\<lparr>e_status := st2\<rparr>
               else if e_id e \<in> set xs then e\<lparr>e_status := st1\<rparr> else e) es"
  by (simp add: updateManyStatus_def)

lemma updateManyStatus_Nil: "updateManyStatus [] st es = es"
  by (simp add: updateManyStatus_def)

section \<open>Approving needs the stored expenses (C3)\<close>

text \<open>
  The test of lines 1116-1121 compares the two lengths and asks that every supplied id is
  stored. On lists without repetition this is equality of the two sets.
\<close>

lemma expensesMismatch_distinct:
  "distinct stored \<Longrightarrow> distinct supplied \<Longrightarrow>
   expensesMismatch stored supplied \<longleftrightarrow> set supplied \<noteq> set stored"
proof -
  assume ds: "distinct stored" and dp: "distinct supplied"
  have "length stored = length supplied \<and> set supplied \<subseteq> set stored \<longleftrightarrow> set supplied = set stored"
  proof
    assume h: "length stored = length supplied \<and> set supplied \<subseteq> set stored"
    then have "card (set supplied) = card (set stored)"
      using ds dp by (simp add: distinct_card)
    with h show "set supplied = set stored"
      by (simp add: card_subset_eq)
  next
    assume "set supplied = set stored"
    then show "length stored = length supplied \<and> set supplied \<subseteq> set stored"
      using ds dp by (metis distinct_card subset_refl)
  qed
  then show ?thesis
    by (auto simp: expensesMismatch_def list_all_iff)
qed

text \<open>
  C3: an approve call on a pending report whose supplied ids are not the report's expense
  set must fail with "Expenses do not match" and change nothing. The source accepts a
  supplied list that repeats an id: for the report of \<open>e1\<close> and \<open>e2\<close>, the list \<open>e1, e1\<close> has
  the stored length and only stored ids, so the report is approved, \<open>e1\<close> is approved and
  \<open>e2\<close> stays mapped.
\<close>

theorem updateApproval_duplicate_ids:
  "set [''e1'', ''e1''] \<noteq> set (r_expenses (reportOf ''r1'' (Some ''Rep#001'') [''e1'', ''e2''] ''pending'')) \<and>
   snd (updateApproval ''u2'' ''r1'' ''approve'' (Some [''e1'', ''e1'']) ''ok''
          (reviewDb ''pending'')) = Inr ''approved'' \<and>
   map r_status (db_reports (fst (updateApproval ''u2'' ''r1'' ''approve'' (Some [''e1'', ''e1'']) ''ok''
          (reviewDb ''pending'')))) = [''approved''] \<and>
   map e_status (db_expenses (fst (updateApproval ''u2'' ''r1'' ''approve'' (Some [''e1'', ''e1'']) ''ok''
          (reviewDb ''pending''))))
     = [''approved'', ''mapped'']"
  by code_simp

section \<open>Rejecting part of a report (C4)\<close>

text \<open>
  C4, as the claim states it, fails on the empty list, which is a strict subset of every
  non-empty expense set: line 1091 answers "Expenses are required" and nothing changes, so
  the report stays pending and its expenses stay mapped.
\<close>

theorem updateApproval_reject_empty:
  "set [] \<subset> set (r_expenses (reportOf ''r1'' (Some ''Rep#001'') [''e1'', ''e2''] ''pending'')) \<and>
   snd (updateApproval ''u2'' ''r1'' ''reject'' (Some []) ''no''
          (reviewDb ''pending'')) = Inl ExpensesRequired \<and>
   map r_status (db_reports (fst (updateApproval ''u2'' ''r1'' ''reject'' (Some []) ''no''
          (reviewDb ''pending''))))
     = [''pending''] \<and>
   map e_status (db_expenses (fst (updateApproval ''u2'' ''r1'' ''reject'' (Some []) ''no''
          (reviewDb ''pending''))))
     = [''mapped'', ''mapped'']"
  by code_simp

text \<open>
  C4, amended. For a decision that is not an approval (so for action reject) on a pending
  report, where the supplied expense ids are a non-empty strict subset of the report's
  expense set: the call succeeds, the report's status becomes rejected, every supplied
  expense becomes rejected, every other expense of the report becomes approved, no expense
  of the report is left mapped, and no other expense changes.
\<close>

theorem updateApproval_reject:
  assumes id: "i \<noteq> []"
    and found: "findReportById i (db_reports d) = Some rep"
    and pending: "r_status rep = ''pending''"
    and nonempty: "expenses \<noteq> []"
    and subset: "set expenses \<subset> set (r_expenses rep)"
    and reject: "action \<noteq> ''approve''"
  shows "\<exists>d'. updateApproval userId i action (Some expenses) reason d = (d', Inr ''rejected'') \<and>
           map_option r_status (findReportById i (db_reports d')) = Some ''rejected'' \<and>
           db_expenses d' =
             map (\<lambda>e. if e_id e \<in> set expenses then e\<lparr>e_status := ''rejected''\<rparr>
                       else if e_id e \<in> set (r_expenses rep) then e\<lparr>e_status := ''approved''\<rparr>
                       else e) (db_expenses d) \<and>
           (\<forall>e \<in> set (db_expenses d'). e_id e \<in> set (r_expenses rep) \<longrightarrow>
              e_status e = (if e_id e \<in> set expenses then ''rejected'' else ''approved'') \<and>
              e_status e \<noteq> ''mapped'')"
proof -
  let ?rs = "updateReportById i (decide ''rejected'' userId reason) (db_reports d)"
  let ?es = "updateManyStatus (filter (\<lambda>x. x \<notin> set expenses) (r_expenses rep)) ''approved''
               (updateManyStatus expenses ''rejected'' (db_expenses d))"
  let ?d' = "d\<lparr>db_reports := ?rs,
               db_notifications := db_notifications d @
                 [\<lparr> n_content = r_id rep, n_user = Some (r_user rep), n_status = ''rejected'' \<rparr>],
               db_expenses := ?es\<rparr>"
  have run: "updateApproval userId i action (Some expenses) reason d = (?d', Inr ''rejected'')"
    using id found pending nonempty reject
    by (simp add: updateApproval_def Let_def)
  have rid: "r_id rep = i"
    using found by (rule findReportById_id)
  have "findReportById i ?rs = Some (decide ''rejected'' userId reason rep)"
    using found rid by (intro findReportById_update) (simp_all add: decide_id)
  then have rep': "map_option r_status (findReportById i (db_reports ?d')) = Some ''rejected''"
    by (simp add: decide_def)
  have es: "?es = map (\<lambda>e. if e_id e \<in> set expenses then e\<lparr>e_status := ''rejected''\<rparr>
                       else if e_id e \<in> set (r_expenses rep) then e\<lparr>e_status := ''approved''\<rparr>
                       else e) (db_expenses d)"
    unfolding updateManyStatus_twice
    by (rule map_cong) auto
  have each: "\<forall>e \<in> set ?es. e_id e \<in> set (r_expenses rep) \<longrightarrow>
              e_status e = (if e_id e \<in> set expenses then ''rejected'' else ''approved'') \<and>
              e_status e \<noteq> ''mapped''"
    unfolding es by auto
  have sel: "db_expenses ?d' = ?es"
    by simp
  show ?thesis
  proof (intro exI conjI)
    show "updateApproval userId i action (Some expenses) reason d = (?d', Inr ''rejected'')"
      by (rule run)
    show "map_option r_status (findReportById i (db_reports ?d')) = Some ''rejected''"
      by (rule rep')
    show "db_expenses ?d' =
             map (\<lambda>e. if e_id e \<in> set expenses then e\<lparr>e_status := ''rejected''\<rparr>
                       else if e_id e \<in> set (r_expenses rep) then e\<lparr>e_status := ''approved''\<rparr>
                       else e) (db_expenses d)"
      unfolding sel by (rule es)
    show "\<forall>e \<in> set (db_expenses ?d'). e_id e \<in> set (r_expenses rep) \<longrightarrow>
              e_status e = (if e_id e \<in> set expenses then ''rejected'' else ''approved'') \<and>
              e_status e \<noteq> ''mapped''"
      unfolding sel by (rule each)
  qed
qed

text \<open>
  The report of \<open>e1\<close> and \<open>e2\<close>, rejected with \<open>e1\<close> alone.
\<close>

theorem updateApproval_reject_witness:
  "\<exists>d'. updateApproval ''u2'' ''r1'' ''reject'' (Some [''e1'']) ''no'' (reviewDb ''pending'') =
           (d', Inr ''rejected'') \<and>
         map_option r_status (findReportById ''r1'' (db_reports d')) = Some ''rejected'' \<and>
         map e_status (db_expenses d') = [''rejected'', ''approved'']"
proof -
  let ?rep = "reportOf ''r1'' (Some ''Rep#001'') [''e1'', ''e2''] ''pending''"
  have 1: "''r1'' \<noteq> []" by simp
  have 2: "findReportById ''r1'' (db_reports (reviewDb ''pending'')) = Some ?rep" by code_simp
  have 3: "r_status ?rep = ''pending''" by code_simp
  have 4: "[''e1''] \<noteq> []" by simp
  have 5: "set [''e1''] \<subset> set (r_expenses ?rep)" by code_simp
  have 6: "''reject'' \<noteq> ''approve''" by simp
  from updateApproval_reject [OF 1 2 3 4 5 6, of "''u2''" "''no''"]
  obtain d' where run: "updateApproval ''u2'' ''r1'' ''reject'' (Some [''e1'']) ''no'' (reviewDb ''pending'') =
           (d', Inr ''rejected'')"
    and st: "map_option r_status (findReportById ''r1'' (db_reports d')) = Some ''rejected''"
    and es: "db_expenses d' =
             map (\<lambda>e. if e_id e \<in> set [''e1''] then e\<lparr>e_status := ''rejected''\<rparr>
                       else if e_id e \<in> set (r_expenses ?rep) then e\<lparr>e_status := ''approved''\<rparr>
                       else e) (db_expenses (reviewDb ''pending''))"
    by blast
  have "map e_status (map (\<lambda>e. if e_id e \<in> set [''e1''] then e\<lparr>e_status := ''rejected''\<rparr>
                       else if e_id e \<in> set (r_expenses ?rep) then e\<lparr>e_status := ''approved''\<rparr>
                       else e) (db_expenses (reviewDb ''pending''))) = [''rejected'', ''approved'']"
    by code_simp
  with run st es show ?thesis by simp
qed

section \<open>Decisions on a report that is not pending (C5)\<close>

text \<open>
  C5, as the claim states it, fails when the supplied expense list is empty: the test of
  the list (line 1091) comes before the test of the status (line 1104), and the response is
  "Expenses are required", not "Approval has already done".
\<close>

theorem updateApproval_not_pending_empty:
  "r_status (reportOf ''r1'' (Some ''Rep#001'') [''e1'', ''e2''] ''approved'') \<noteq> ''pending'' \<and>
   findReportById ''r1'' (db_reports (reviewDb ''approved'')) =
     Some (reportOf ''r1'' (Some ''Rep#001'') [''e1'', ''e2''] ''approved'') \<and>
   snd (updateApproval ''u2'' ''r1'' ''approve'' (Some []) ''ok'' (reviewDb ''approved'')) =
     Inl ExpensesRequired"
  by code_simp

text \<open>
  C5, amended. On a report that is not pending, \<^verbatim>\<open>updateApproval\<close> fails and leaves the
  database unchanged, whatever the action and the body; when the body supplies a non-empty
  expense list (and the id of the route is not empty) the failure is "Approval has already
  done". Consequently, over any call and for any report id, the status stored under that
  id is the same before and after, or it was pending and is now approved or rejected.
\<close>

theorem updateApproval_not_pending:
  "(findReportById i (db_reports d) = Some rep \<and> r_status rep \<noteq> ''pending'' \<longrightarrow>
      fst (updateApproval userId i action body_expenses reason d) = d \<and>
      isl (snd (updateApproval userId i action body_expenses reason d)) \<and>
      (\<forall>expenses. body_expenses = Some expenses \<and> expenses \<noteq> [] \<and> i \<noteq> [] \<longrightarrow>
         snd (updateApproval userId i action body_expenses reason d) = Inl ApprovalAlreadyDone)) \<and>
   (map_option r_status
      (findReportById j (db_reports (fst (updateApproval userId i action body_expenses reason d)))) =
    map_option r_status (findReportById j (db_reports d)) \<or>
    map_option r_status (findReportById j (db_reports d)) = Some ''pending'' \<and>
    map_option r_status
      (findReportById j (db_reports (fst (updateApproval userId i action body_expenses reason d))))
      \<in> {Some ''approved'', Some ''rejected''})"
proof (intro conjI impI)
  assume h: "findReportById i (db_reports d) = Some rep \<and> r_status rep \<noteq> ''pending''"
  then show "fst (updateApproval userId i action body_expenses reason d) = d"
    by (simp add: updateApproval_def split: option.splits)
  from h show "isl (snd (updateApproval userId i action body_expenses reason d))"
    by (simp add: updateApproval_def split: option.splits)
  from h show "\<forall>expenses. body_expenses = Some expenses \<and> expenses \<noteq> [] \<and> i \<noteq> [] \<longrightarrow>
         snd (updateApproval userId i action body_expenses reason d) = Inl ApprovalAlreadyDone"
    by (simp add: updateApproval_def)
next
  let ?d' = "fst (updateApproval userId i action body_expenses reason d)"
  let ?old = "map_option r_status (findReportById j (db_reports d))"
  let ?new = "map_option r_status (findReportById j (db_reports ?d'))"
  show "?new = ?old \<or> ?old = Some ''pending'' \<and> ?new \<in> {Some ''approved'', Some ''rejected''}"
  proof (cases "?d' = d")
    case True
    then show ?thesis by simp
  next
    case changed: False
    then obtain expenses rep where be: "body_expenses = Some expenses"
      and found: "findReportById i (db_reports d) = Some rep"
      and pending: "r_status rep = ''pending''"
      by (auto simp: updateApproval_def split: option.splits if_splits)
    let ?st = "if action = ''approve'' then ''approved'' else ''rejected''"
    have reps: "db_reports ?d' = updateReportById i (decide ?st userId reason) (db_reports d)"
      using changed be found pending
      by (auto simp: updateApproval_def Let_def split: if_splits)
    show ?thesis
    proof (cases "j = i")
      case True
      have "findReportById i (db_reports ?d') = Some (decide ?st userId reason rep)"
        unfolding reps using found findReportById_id [OF found]
        by (intro findReportById_update) (simp_all add: decide_id)
      then have "map_option r_status (findReportById i (db_reports ?d')) \<in>
          {Some ''approved'', Some ''rejected''}"
        by (simp add: decide_def)
      with found pending True show ?thesis
        by simp
    next
      case False
      then have "findReportById j (db_reports ?d') = findReportById j (db_reports d)"
        unfolding reps by (intro findReportById_update_other) (simp_all add: decide_id)
      then show ?thesis by simp
    qed
  qed
qed

theorem updateApproval_not_pending_witness:
  "updateApproval ''u2'' ''r1'' ''approve'' (Some [''e1'', ''e2'']) ''ok'' (reviewDb ''approved'') =
     (reviewDb ''approved'', Inl ApprovalAlreadyDone)"
proof -
  let ?rep = "reportOf ''r1'' (Some ''Rep#001'') [''e1'', ''e2''] ''approved''"
  let ?run = "updateApproval ''u2'' ''r1'' ''approve'' (Some [''e1'', ''e2'']) ''ok'' (reviewDb ''approved'')"
  have 1: "findReportById ''r1'' (db_reports (reviewDb ''approved'')) = Some ?rep" by code_simp
  have 2: "r_status ?rep \<noteq> ''pending''" by code_simp
  from updateApproval_not_pending [of "''r1''" "reviewDb ''approved''" ?rep "''u2''" "''approve''"
      "Some [''e1'', ''e2'']" "''ok''"] 1 2
  have "fst ?run = reviewDb ''approved''" and "snd ?run = Inl ApprovalAlreadyDone"
    by simp_all
  then show ?thesis
    by (simp add: prod_eq_iff)
qed

section \<open>Expenses that are already mapped (C6)\<close>




section \<open>Report labels (C7)\<close>

lemma digitValue_digitChar: "d < 10 \<Longrightarrow> digitValue (digitChar d) = int d"
proof -
  have "\<forall>k \<in> set [0..<10]. digitValue (digitChar k) = int k"
    by code_simp
  then show "d < 10 \<Longrightarrow> digitValue (digitChar d) = int d"
    by simp
qed

lemma decimalValue_snoc: "decimalValue (s @ [c]) = 10 * decimalValue s + digitValue c"
  by (simp add: decimalValue_def)

lemma decimalValue_toString: "decimalValue (toString n) = int n"
proof (induction n rule: toString.induct)
  case (1 n)
  show ?case
  proof (cases "n < 10")
    case True
    then show ?thesis
      by (simp add: toString.simps [of n] decimalValue_def digitValue_digitChar)
  next
    case False
    with 1 have "decimalValue (toString (n div 10)) = int (n div 10)" by simp
    moreover have "10 * int (n div 10) + int (n mod 10) = int n"
      by (simp add: zdiv_int zmod_int)
    ultimately show ?thesis
      using False by (simp add: toString.simps [of n] decimalValue_snoc digitValue_digitChar)
  qed
qed

lemma decimalValue_zeros: "decimalValue (replicate k (CHR ''0'') @ s) = decimalValue s"
proof -
  have "foldl (\<lambda>a c. 10 * a + digitValue c) 0 (replicate k (CHR ''0'')) = 0"
    by (induction k) (simp_all add: digitValue_def)
  then show ?thesis
    by (simp add: decimalValue_def)
qed

lemma decimalValue_reportLabel: "decimalValue (drop 4 (reportLabel n)) = int n"
  by (simp add: reportLabel_def padStart_def decimalValue_zeros decimalValue_toString)

lemma reportLabel_inj: "reportLabel m = reportLabel n \<Longrightarrow> m = n"
  by (metis decimalValue_reportLabel of_nat_eq_iff)

lemma createNewReport_reports:
  "db_reports (fst (createNewReport cx usr body l d)) =
     db_reports d @ [\<lparr> r_id = cx_newId cx, r_reportId = Some l, r_user = cx_userId cx,
                        r_event = b_event body, r_expenses = b_expenses body,
                        r_title = b_title body, r_status = reportDefaultStatus,
                        r_reportDate = b_reportDate body, r_reason = [],
                        r_approver = None, r_approverModel = None \<rparr>]"
  by (cases usr) (simp_all add: createNewReport_def Let_def)

lemma createNewReport_result:
  "snd (createNewReport cx usr body l d) = Inr rep \<Longrightarrow> r_reportId rep = Some l"
  by (cases usr) (auto simp: createNewReport_def Let_def)

lemma checkedReport_reports:
  "db_reports (fst (checkedReport J cx usr body l es d)) = db_reports d \<or>
   (\<exists>rep. r_reportId rep = Some l \<and>
      db_reports (fst (checkedReport J cx usr body l es d)) = db_reports d @ [rep])"
  by (cases "policyChecks J cx usr (b_expenses body) es d")
     (simp_all add: checkedReport_def createNewReport_reports)

lemma checkedReport_result:
  "snd (checkedReport J cx usr body l es d) = Inr rep \<Longrightarrow> r_reportId rep = Some l"
  by (cases "policyChecks J cx usr (b_expenses body) es d")
     (auto simp: checkedReport_def dest: createNewReport_result)

lemma createReport_reports:
  "db_reports (fst (createReport J v cx body d)) = db_reports d \<or>
   (\<exists>rep. r_reportId rep = Some (reportLabel (length (db_reports d) + 1)) \<and>
      db_reports (fst (createReport J v cx body d)) = db_reports d @ [rep])"
proof -
  let ?l = "reportLabel (length (db_reports d) + 1)"
  let ?usr = "findUserPopulated (cx_userId cx) d"
  let ?es = "findExpenses (b_expenses body) (db_expenses d)"
  let ?dm = "d\<lparr>db_expenses := updateManyStatus (b_expenses body) ''mapped'' (db_expenses d)\<rparr>"
  have "fst (createReport J v cx body d) = d \<or>
        fst (createReport J v cx body d) = fst (createNewReport cx ?usr body ?l ?dm) \<or>
        fst (createReport J v cx body d) = fst (checkedReport J cx ?usr body ?l ?es d)"
    by (simp add: createReport_def countDocuments_def eventType_def Let_def split: option.splits)
  then show ?thesis
    using checkedReport_reports [of J cx ?usr body ?l ?es d]
    by (auto simp: createNewReport_reports)
qed

lemma createReport_result:
  "snd (createReport J v cx body d) = Inr rep \<Longrightarrow>
   r_reportId rep = Some (reportLabel (length (db_reports d) + 1))"
  by (auto simp: createReport_def countDocuments_def eventType_def Let_def
           split: option.splits if_splits sum.splits
           dest: createNewReport_result checkedReport_result)

lemma createReports_labels:
  "map r_reportId (db_reports d) = map (\<lambda>n. Some (reportLabel (Suc n))) [0..<length (db_reports d)] \<Longrightarrow>
   map r_reportId (db_reports (createReports J v calls d)) =
     map (\<lambda>n. Some (reportLabel (Suc n))) [0..<length (db_reports (createReports J v calls d))]"
proof (induction calls arbitrary: d)
  case Nil
  then show ?case by simp
next
  case (Cons call calls)
  let ?d1 = "fst (createReport J v (fst call) (snd call) d)"
  have "map r_reportId (db_reports ?d1) =
      map (\<lambda>n. Some (reportLabel (Suc n))) [0..<length (db_reports ?d1)]"
    using createReport_reports [of J v "fst call" "snd call" d] Cons.prems by auto
  from Cons.IH [OF this] show ?case by simp
qed

lemma labels_distinct:
  "distinct (map (\<lambda>n. Some (reportLabel (Suc n))) [0..<k])"
  by (auto simp: distinct_map inj_on_def dest: reportLabel_inj)

lemma syncExpenses_reports: "db_reports (syncExpenses stored req d) = db_reports d"
  by (simp add: syncExpenses_def Let_def)

text \<open>
  C7: the labels assigned over any sequence of report creations and of \<^verbatim>\<open>updateReport\<close>
  calls that give a label to a report stored without one must be unique. Both paths
  compute one plus the number of report documents (lines 204-207 and 937-942), but the
  report that \<^verbatim>\<open>updateReport\<close> labels is already counted, so the number is that of the
  report created next. On a collection that holds one report without a label (as
  \<^verbatim>\<open>getReport\<close> stores one for an event), \<^verbatim>\<open>updateReport\<close> assigns \<open>Rep#002\<close>, and the
  \<^verbatim>\<open>createReport\<close> that follows assigns \<open>Rep#002\<close> again.
\<close>

theorem reportLabel_backfill_duplicate:
  "map r_reportId (db_reports legacyDb) = [None] \<and>
   map r_reportId (db_reports (fst (updateReport ''r0'' emptyPatch legacyDb))) = [Some ''Rep#002''] \<and>
   map r_reportId (db_reports (fst (createReport intJs acceptAll exampleCtx (bodyOf [''e1''] None)
       (fst (updateReport ''r0'' emptyPatch legacyDb))))) = [Some ''Rep#002'', Some ''Rep#002'']"
  by code_simp

text \<open>
  What holds of the labels: on both paths the label is \<open>Rep#\<close> followed by one plus the number
  of report documents, padded with zeros to three digits; the number is read back from the
  label, so labels of different numbers differ; and \<^verbatim>\<open>createReport\<close> calls alone, from an
  empty collection, label the k-th report with k.
\<close>

lemma reportLabel_assigned:
  "(snd (createReport J v cx body d) = Inr rep \<longrightarrow>
      r_reportId rep = Some (reportLabel (countDocuments (db_reports d) + 1))) \<and>
   (i \<noteq> [] \<and> findReportById i (db_reports d) = Some r \<and> r_reportId r = None \<longrightarrow>
      (\<exists>rep'. snd (updateReport i patch d) = Inr rep' \<and>
         r_reportId rep' = Some (reportLabel (countDocuments (db_reports d) + 1)))) \<and>
   reportLabel 3 = ''Rep#003'' \<and>
   (db_reports d = [] \<longrightarrow>
      map r_reportId (db_reports (createReports J v calls d)) =
        map (\<lambda>n. Some (reportLabel (Suc n))) [0..<length (db_reports (createReports J v calls d))] \<and>
      distinct (map r_reportId (db_reports (createReports J v calls d)))) \<and>
   (m < n \<longrightarrow> reportLabel m \<noteq> reportLabel n) \<and>
   decimalValue (drop 4 (reportLabel n)) = int n"
proof (intro conjI impI)
  assume "snd (createReport J v cx body d) = Inr rep"
  then show "r_reportId rep = Some (reportLabel (countDocuments (db_reports d) + 1))"
    by (simp add: createReport_result countDocuments_def)
next
  assume h: "i \<noteq> [] \<and> findReportById i (db_reports d) = Some r \<and> r_reportId r = None"
  then show "\<exists>rep'. snd (updateReport i patch d) = Inr rep' \<and>
         r_reportId rep' = Some (reportLabel (countDocuments (db_reports d) + 1))"
    by (simp add: updateReport_def Let_def applyPatch_def syncExpenses_reports)
next
  show "reportLabel 3 = ''Rep#003''"
    by code_simp
next
  assume empty: "db_reports d = []"
  then have start: "map r_reportId (db_reports d) =
      map (\<lambda>n. Some (reportLabel (Suc n))) [0..<length (db_reports d)]"
    by simp
  from createReports_labels [OF start]
  show eq: "map r_reportId (db_reports (createReports J v calls d)) =
      map (\<lambda>n. Some (reportLabel (Suc n))) [0..<length (db_reports (createReports J v calls d))]" .
  show "distinct (map r_reportId (db_reports (createReports J v calls d)))"
    unfolding eq by (rule labels_distinct)
next
  assume "m < n"
  then show "reportLabel m \<noteq> reportLabel n"
    using reportLabel_inj [of m n] by auto
next
  show "decimalValue (drop 4 (reportLabel n)) = int n"
    by (rule decimalValue_reportLabel)
qed

lemma createReports_three:
  "map r_reportId (db_reports (createReports intJs acceptAll
       [(exampleCtx\<lparr>cx_newId := ''r1''\<rparr>, bodyOf [''e1''] None),
        (exampleCtx\<lparr>cx_newId := ''r2''\<rparr>, bodyOf [''e2''] None),
        (exampleCtx\<lparr>cx_newId := ''r3''\<rparr>, bodyOf [''e3''] None)]
       (exampleDb 1000 [expenseOf ''e1'' 10 ''drafted'', expenseOf ''e2'' 20 ''drafted'',
                        expenseOf ''e3'' 30 ''drafted''] []))) =
     [Some ''Rep#001'', Some ''Rep#002'', Some ''Rep#003'']"
proof -
  let ?d = "exampleDb 1000 [expenseOf ''e1'' 10 ''drafted'', expenseOf ''e2'' 20 ''drafted'',
                        expenseOf ''e3'' 30 ''drafted''] []"
  let ?calls = "[(exampleCtx\<lparr>cx_newId := ''r1''\<rparr>, bodyOf [''e1''] None),
        (exampleCtx\<lparr>cx_newId := ''r2''\<rparr>, bodyOf [''e2''] None),
        (exampleCtx\<lparr>cx_newId := ''r3''\<rparr>, bodyOf [''e3''] None)]"
  have 1: "db_reports ?d = []" by code_simp
  have 2: "length (db_reports (createReports intJs acceptAll ?calls ?d)) = 3" by code_simp
  have 3: "map (\<lambda>n. Some (reportLabel (Suc n))) [0..<3] =
      [Some ''Rep#001'', Some ''Rep#002'', Some ''Rep#003'']" by code_simp
  from reportLabel_assigned [where J = intJs and v = acceptAll and d = ?d and calls = ?calls] 1
  have "map r_reportId (db_reports (createReports intJs acceptAll ?calls ?d)) =
        map (\<lambda>n. Some (reportLabel (Suc n)))
          [0..<length (db_reports (createReports intJs acceptAll ?calls ?d))]"
    by blast
  then show ?thesis
    unfolding 2 3 .
qed

section \<open>The wallet (C8)\<close>

lemma those_map_Some:
  "\<forall>x \<in> set xs. f x \<noteq> None \<Longrightarrow> \<exists>ys. those (map f xs) = Some ys"
  by (induction xs) auto

text \<open>
  C8: for every user \<^verbatim>\<open>getWallet\<close> must return the total of the completed transactions
  of the month, the total of the wallet deductions of the month, and their difference. The
  response is built after the totals: line 1418 reads \<^verbatim>\<open>exp.deductBy.name\<close> of every
  deduction without the test that line 1388 makes for the sender of a transaction, and line
  1422 reads \<^verbatim>\<open>user.tier.categories\<close>. For the user with one completed transaction of 500
  and wallet deductions of 120 and 30, the call answers with the internal error when the
  principal that the deductions name is not stored, and when the user has no tier.
\<close>

theorem getWallet_missing_principal:
  "foldl (\<lambda>acc a. acc + tx_amount a) 0
     (advancesOf ''u1'' 1000 2000 (db_transactions (walletDb [] (Some ''t1'')))) = 500 \<and>
   foldl (\<lambda>acc x. acc + d_amount x) 0
     (walletDeductionsOf ''u1'' 1000 2000 (db_deductions (walletDb [] (Some ''t1'')))) = 150 \<and>
   getWallet intJs ''u1'' 1000 2000 (walletDb [] (Some ''t1'')) = Inl InternalServerError \<and>
   getWallet intJs ''u1'' 1000 2000 (walletDb [\<lparr> a_id = ''a1'', a_name = ''Finance'' \<rparr>] None) =
     Inl InternalServerError"
  by code_simp

text \<open>
  With the principal stored and a tier on the user, the same wallet is answered as the
  specification says: 500, 150 and the balance 350.
\<close>

lemma getWallet_scenario:
  "map_sum id (\<lambda>w. (totalAmount w, totalExpenses w, balanceAmount w))
     (getWallet intJs ''u1'' 1000 2000
        (walletDb [\<lparr> a_id = ''a1'', a_name = ''Finance'' \<rparr>] (Some ''t1''))) =
   Inr (500, 150, 350)"
  by code_simp

text \<open>
  In general, when the user is stored with a tier and every wallet deduction of the month
  names a stored principal, the call returns the running sums of the source and their
  difference.
\<close>

lemma getWallet_totals:
  assumes usr: "find (\<lambda>u. u_id u = userId) (db_users d) = Some usr"
    and tier: "u_tier usr \<noteq> None"
    and admins: "\<forall>x \<in> set (walletDeductionsOf userId startOfMonth endOfMonth (db_deductions d)).
                   findAdmin (d_deductBy x) (db_admins d) \<noteq> None"
  shows "\<exists>w. getWallet J userId startOfMonth endOfMonth d = Inr w \<and>
           totalAmount w =
             foldl (\<lambda>acc a. js_add J acc (tx_amount a)) (js_zero J)
               (filter (\<lambda>a. tx_receiver a = userId \<and> tx_status a = ''completed'' \<and>
                             startOfMonth \<le> tx_createdAt a \<and> tx_createdAt a \<le> endOfMonth)
                  (db_transactions d)) \<and>
           totalExpenses w =
             foldl (\<lambda>acc x. js_add J acc (d_amount x)) (js_zero J)
               (filter (\<lambda>x. d_user x = userId \<and> d_mode x = ''wallet'' \<and> d_status x \<and>
                             startOfMonth \<le> d_deductOn x \<and> d_deductOn x \<le> endOfMonth)
                  (db_deductions d)) \<and>
           balanceAmount w = js_sub J (totalAmount w) (totalExpenses w)"
proof -
  let ?exps = "walletDeductionsOf userId startOfMonth endOfMonth (db_deductions d)"
  have debits: "\<forall>x \<in> set ?exps. debitEntry (db_admins d) x \<noteq> None"
    using admins by (auto simp: debitEntry_def split: option.splits)
  from those_map_Some [OF debits]
  obtain mappedData where md: "those (map (debitEntry (db_admins d)) ?exps) = Some mappedData"
    by blast
  from tier obtain tid where tid: "u_tier usr = Some tid"
    by auto
  have adv: "advancesOf userId startOfMonth endOfMonth (db_transactions d) =
      filter (\<lambda>a. tx_receiver a = userId \<and> tx_status a = ''completed'' \<and>
                   startOfMonth \<le> tx_createdAt a \<and> tx_createdAt a \<le> endOfMonth)
        (db_transactions d)"
    unfolding advancesOf_def by (rule filter_cong) auto
  have ded: "?exps =
      filter (\<lambda>x. d_user x = userId \<and> d_mode x = ''wallet'' \<and> d_status x \<and>
                   startOfMonth \<le> d_deductOn x \<and> d_deductOn x \<le> endOfMonth)
        (db_deductions d)"
    unfolding walletDeductionsOf_def by (rule filter_cong) auto
  show ?thesis
    unfolding adv [symmetric] ded [symmetric]
    by (simp add: getWallet_def Let_def usr md tid)
qed

section \<open>Updating the expenses of a report (C9)\<close>

lemma syncExpenses_expenses:
  "req \<noteq> [] \<Longrightarrow>
   db_expenses (syncExpenses stored req d) =
     map (\<lambda>e. if e_id e \<in> set req \<and> e_id e \<notin> set stored then e\<lparr>e_status := ''mapped''\<rparr>
               else if e_id e \<in> set stored \<and> e_id e \<notin> set req then e\<lparr>e_status := ''draft''\<rparr>
               else e) (db_expenses d)"
proof -
  assume req: "req \<noteq> []"
  let ?new = "filter (\<lambda>ex. ex \<notin> set stored) req"
  let ?old = "filter (\<lambda>ex. ex \<notin> set req) stored"
  have "db_expenses (syncExpenses stored req d) =
      updateManyStatus ?old ''draft'' (updateManyStatus ?new ''mapped'' (db_expenses d))"
    using req by (simp add: syncExpenses_def Let_def updateManyStatus_Nil)
  also have "\<dots> = map (\<lambda>e. if e_id e \<in> set req \<and> e_id e \<notin> set stored then e\<lparr>e_status := ''mapped''\<rparr>
               else if e_id e \<in> set stored \<and> e_id e \<notin> set req then e\<lparr>e_status := ''draft''\<rparr>
               else e) (db_expenses d)"
    unfolding updateManyStatus_twice by (rule map_cong) auto
  finally show ?thesis .
qed

text \<open>
  C9: every expense stored on the report but absent from the list of the body must be
  reverted to draft. Line 912 runs the comparison only when the list of the body has an
  element, which lets a body without a list pass; a body whose list is empty passes the
  same way, while line 945 still writes the empty list to the report. The report of \<open>e1\<close>
  and \<open>e2\<close> loses both, and both stay mapped.
\<close>

theorem updateReport_empty_list:
  "map r_expenses (db_reports (reviewDb ''pending'')) = [[''e1'', ''e2'']] \<and>
   map r_expenses (db_reports (fst (updateReport ''r1'' (emptyPatch\<lparr>p_expenses := Some []\<rparr>)
      (reviewDb ''pending'')))) = [[]] \<and>
   map e_status (db_expenses (fst (updateReport ''r1'' (emptyPatch\<lparr>p_expenses := Some []\<rparr>)
      (reviewDb ''pending'')))) = [''mapped'', ''mapped'']"
  by code_simp

text \<open>
  With a list that is not empty the source does what the specification says, and nothing
  else: an expense of the body that the report does not hold is set to mapped, an expense
  of the report that the body does not name is set to draft, every other expense is left
  as it is.
\<close>

lemma updateReport_expenses:
  assumes id: "i \<noteq> []"
    and found: "findReportById i (db_reports d) = Some rep"
    and patch: "p_expenses body = Some requestExpenses"
    and nonempty: "requestExpenses \<noteq> []"
  shows "db_expenses (fst (updateReport i body d)) =
           map (\<lambda>e. if e_id e \<in> set requestExpenses \<and> e_id e \<notin> set (r_expenses rep)
                       then e\<lparr>e_status := ''mapped''\<rparr>
                     else if e_id e \<in> set (r_expenses rep) \<and> e_id e \<notin> set requestExpenses
                       then e\<lparr>e_status := ''draft''\<rparr>
                     else e) (db_expenses d) \<and>
         (\<forall>e \<in> set (db_expenses (fst (updateReport i body d))).
            (e_id e \<in> set requestExpenses \<and> e_id e \<notin> set (r_expenses rep) \<longrightarrow>
               e_status e = ''mapped'') \<and>
            (e_id e \<in> set (r_expenses rep) \<and> e_id e \<notin> set requestExpenses \<longrightarrow>
               e_status e = ''draft''))"
proof -
  have sel: "db_expenses (fst (updateReport i body d)) =
      db_expenses (syncExpenses (r_expenses rep) requestExpenses d)"
    using id found patch by (simp add: updateReport_def Let_def)
  note eq = syncExpenses_expenses [OF nonempty, of "r_expenses rep" d]
  show ?thesis
    unfolding sel eq by auto
qed

lemma updateReport_expenses_scenario:
  "map e_status (db_expenses (fst (updateReport ''r1''
      (emptyPatch\<lparr>p_expenses := Some [''e2'', ''e3'']\<rparr>)
      (exampleDb 1000 [expenseOf ''e1'' 10 ''mapped'', expenseOf ''e2'' 20 ''mapped'',
                       expenseOf ''e3'' 30 ''drafted'']
         [reportOf ''r1'' (Some ''Rep#001'') [''e1'', ''e2''] ''pending''])))) =
   [''draft'', ''mapped'', ''mapped'']"
proof -
  let ?d = "exampleDb 1000 [expenseOf ''e1'' 10 ''mapped'', expenseOf ''e2'' 20 ''mapped'',
                       expenseOf ''e3'' 30 ''drafted'']
         [reportOf ''r1'' (Some ''Rep#001'') [''e1'', ''e2''] ''pending'']"
  let ?rep = "reportOf ''r1'' (Some ''Rep#001'') [''e1'', ''e2''] ''pending''"
  let ?p = "emptyPatch\<lparr>p_expenses := Some [''e2'', ''e3'']\<rparr>"
  have 1: "''r1'' \<noteq> []" by simp
  have 2: "findReportById ''r1'' (db_reports ?d) = Some ?rep" by code_simp
  have 3: "p_expenses ?p = Some [''e2'', ''e3'']" by code_simp
  have 4: "[''e2'', ''e3''] \<noteq> []" by simp
  have 5: "map e_status (map (\<lambda>e. if e_id e \<in> set [''e2'', ''e3''] \<and> e_id e \<notin> set (r_expenses ?rep)
                       then e\<lparr>e_status := ''mapped''\<rparr>
                     else if e_id e \<in> set (r_expenses ?rep) \<and> e_id e \<notin> set [''e2'', ''e3'']
                       then e\<lparr>e_status := ''draft''\<rparr>
                     else e) (db_expenses ?d)) = [''draft'', ''mapped'', ''mapped'']"
    by code_simp
  from updateReport_expenses [OF 1 2 3 4]
  have "db_expenses (fst (updateReport ''r1'' ?p ?d)) =
      map (\<lambda>e. if e_id e \<in> set [''e2'', ''e3''] \<and> e_id e \<notin> set (r_expenses ?rep)
                       then e\<lparr>e_status := ''mapped''\<rparr>
                     else if e_id e \<in> set (r_expenses ?rep) \<and> e_id e \<notin> set [''e2'', ''e3'']
                       then e\<lparr>e_status := ''draft''\<rparr>
                     else e) (db_expenses ?d)"
    by blast
  then show ?thesis
    using 5 by simp
qed

section \<open>An event that is not stored (C10)\<close>

lemma createNewReport_not_event:
  "snd (createNewReport cx usr body l d) \<noteq> Inl EventNotFound"
  by (cases usr) (simp_all add: createNewReport_def Let_def)

lemma checkedReport_not_event:
  "snd (checkedReport J cx usr body l es d) \<noteq> Inl EventNotFound"
proof (cases "policyChecks J cx usr (b_expenses body) es d")
  case None
  then show ?thesis
    by (simp add: checkedReport_def createNewReport_not_event)
next
  case failed: (Some err)
  have "err \<noteq> EventNotFound"
  proof (cases "earlierChecks J usr (b_expenses body) es d")
    case None
    with failed show ?thesis
      by (auto simp: policyChecks_def split: option.splits if_splits)
  next
    case (Some e)
    with failed have "err = e"
      by (simp add: policyChecks_def)
    with earlierChecks_errors [OF Some] show ?thesis
      by simp
  qed
  with failed show ?thesis
    by (simp add: checkedReport_def)
qed

text \<open>
  C10. A \<^verbatim>\<open>createReport\<close> call (valid body, at least one expense id) that names an event
  which is not stored answers with the internal error and changes nothing: line 250 reads
  \<^verbatim>\<open>event.type\<close> before line 257 tests the event. No call at all answers "Event not
  found".
\<close>

theorem createReport_missing_event:
  "(createReportSchema body = None \<and> b_expenses body \<noteq> [] \<and> truthyId (b_event body) \<and>
      findEvent (the (b_event body)) (db_events d) = None \<longrightarrow>
      createReport J createReportSchema cx body d = (d, Inl InternalServerError)) \<and>
   snd (createReport J createReportSchema cx body d) \<noteq> Inl EventNotFound"
proof
  show "createReportSchema body = None \<and> b_expenses body \<noteq> [] \<and> truthyId (b_event body) \<and>
      findEvent (the (b_event body)) (db_events d) = None \<longrightarrow>
      createReport J createReportSchema cx body d = (d, Inl InternalServerError)"
    by (simp add: createReport_def eventType_def)
  show "snd (createReport J createReportSchema cx body d) \<noteq> Inl EventNotFound"
    by (simp add: createReport_def eventType_def Let_def checkedReport_not_event
          createNewReport_not_event split: option.splits)
qed

theorem createReport_missing_event_witness:
  "createReport intJs acceptAll exampleCtx (bodyOf [''e1''] (Some ''ev9''))
     (exampleDb 1000 [expenseOf ''e1'' 20 ''drafted''] []) =
   (exampleDb 1000 [expenseOf ''e1'' 20 ''drafted''] [], Inl InternalServerError)"
proof -
  let ?d = "exampleDb 1000 [expenseOf ''e1'' 20 ''drafted''] []"
  let ?b = "bodyOf [''e1''] (Some ''ev9'')"
  have 1: "b_expenses ?b \<noteq> []" by code_simp
  have 2: "truthyId (b_event ?b)" by code_simp
  have 3: "findEvent (the (b_event ?b)) (db_events ?d) = None" by code_simp
  have 0: "acceptAll ?b = None" by (simp add: acceptAll_def)
  from createReport_missing_event [where createReportSchema = acceptAll and body = ?b and d = ?d
      and J = intJs and cx = exampleCtx] 0 1 2 3
  show ?thesis by simp
qed

end
